theory Spec2Isabelle
  imports Complex_Main
begin

section \<open>Persistence adapter (server/storage.ts)\<close>

text \<open>
  The relational store is kept as explicit state: one list of rows per table, in insertion
  order. The table declarations of \<^verbatim>\<open>@shared/schema\<close> are not part of the sources, so a
  row carries exactly the columns that \<^verbatim>\<open>storage.ts\<close> reads or writes; every other column
  of a configuration travels in the polymorphic field \<open>values\<close>. A timestamp
  (\<^verbatim>\<open>new Date()\<close>) is the number of milliseconds read from the clock and is an input of
  the operation that reads it.
\<close>

record 'c config_row =
  "values" :: 'c
  updatedAt :: nat

record history_row =
  h_id :: nat
  h_seoScore :: "int option"
  h_wordCount :: "int option"
  createdAt :: nat

record 'c store =
  configs :: "'c config_row list"
  rewriteHistory :: "history_row list"

text \<open>\<^verbatim>\<open>orderBy(desc(col))\<close> and \<^verbatim>\<open>limit(n)\<close> of the query layer.\<close>

definition orderBy_desc :: "('r \<Rightarrow> nat) \<Rightarrow> 'r list \<Rightarrow> 'r list" where
  "orderBy_desc col rows = rev (sort_key col rows)"

definition limit :: "nat \<Rightarrow> 'r list \<Rightarrow> 'r list" where
  "limit n rows = take n rows"

text \<open>
  \<^verbatim>\<open>const [config] = await db.select().from(configs).orderBy(desc(configs.updatedAt)).limit(1);
  return config || undefined;\<close>
\<close>

definition getConfig :: "'c store \<Rightarrow> 'c config_row option" where
  "getConfig st =
     (case limit 1 (orderBy_desc updatedAt (configs st)) of
        [] \<Rightarrow> None
      | config # _ \<Rightarrow> Some config)"

text \<open>
  \<^verbatim>\<open>await db.delete(configs);
  const [config] = await db.insert(configs).values({...configData, updatedAt: new Date()}).returning();
  return config;\<close>
  The result is the inserted row together with the store after the call.
\<close>

definition saveConfig :: "'c \<Rightarrow> nat \<Rightarrow> 'c store \<Rightarrow> 'c config_row \<times> 'c store" where
  "saveConfig configData now st =
     (let deleted = st\<lparr>configs := []\<rparr>;
          config = \<lparr>values = configData, updatedAt = now\<rparr>
      in (config, deleted\<lparr>configs := configs deleted @ [config]\<rparr>))"

text \<open>A sequence of \<open>saveConfig\<close> calls, each with the clock value it reads.\<close>

fun saveConfigs :: "('c \<times> nat) list \<Rightarrow> 'c store \<Rightarrow> 'c store" where
  "saveConfigs [] st = st"
| "saveConfigs ((configData, now) # calls) st =
     saveConfigs calls (snd (saveConfig configData now st))"

text \<open>\<^verbatim>\<open>x || 0\<close> on a nullable numeric column: \<^verbatim>\<open>null\<close> and \<^verbatim>\<open>0\<close> both give \<^verbatim>\<open>0\<close>.\<close>

definition or_zero :: "int option \<Rightarrow> int" where
  "or_zero x = (case x of None \<Rightarrow> 0 | Some v \<Rightarrow> if v = 0 then 0 else v)"

text \<open>
  A JavaScript number, as far as the statistics need it: a finite value, kept exactly, or
  one of the three values that a division by zero produces.
\<close>

datatype number = Finite rat | NaN | PosInfinity | NegInfinity

record stats =
  totalRewrites :: nat
  avgSeoScore :: number
  totalWordCount :: int

text \<open>
  \<^verbatim>\<open>a / b\<close> on two integers, the divisor not negative: \<^verbatim>\<open>0 / 0\<close> is
  \<^verbatim>\<open>NaN\<close>, any other division by zero is an infinity with the sign of the dividend.
\<close>

definition js_divide :: "int \<Rightarrow> int \<Rightarrow> number" where
  "js_divide a b =
     (if b = 0
      then (if a = 0 then NaN else if 0 < a then PosInfinity else NegInfinity)
      else Finite (of_int a / of_int b))"

text \<open>
  \<^verbatim>\<open>Math.round\<close>: the nearest integer, a tie going up; \<^verbatim>\<open>NaN\<close> and the
  infinities are returned as they are.
\<close>

fun Math_round :: "number \<Rightarrow> number" where
  "Math_round (Finite x) = Finite (of_int \<lfloor>x + 1 / 2\<rfloor>)"
| "Math_round NaN = NaN"
| "Math_round PosInfinity = PosInfinity"
| "Math_round NegInfinity = NegInfinity"

text \<open>
  \<^verbatim>\<open>Math.round(history.reduce((sum, item) => sum + (item.seoScore || 0), 0) / history.length)\<close>,
  the expression that the test \<^verbatim>\<open>history.length > 0\<close> guards. A finite quotient is
  taken exactly; the double of the source agrees with it as long as the sum stays below
  \<open>2^52\<close>.
\<close>

definition rounded_mean_seoScore :: "history_row list \<Rightarrow> number" where
  "rounded_mean_seoScore history =
     Math_round
       (js_divide (foldl (\<lambda>sum item. sum + or_zero (h_seoScore item)) 0 history)
          (int (length history)))"

text \<open>
  \<^verbatim>\<open>const totalRewrites = history.length;
  const avgSeoScore = history.length > 0
    ? Math.round(history.reduce((sum, item) => sum + (item.seoScore || 0), 0) / history.length)
    : 0;
  const totalWordCount = history.reduce((sum, item) => sum + (item.wordCount || 0), 0);\<close>
\<close>

definition getStats :: "'c store \<Rightarrow> stats" where
  "getStats st =
     (let history = rewriteHistory st
      in \<lparr>totalRewrites = length history,
          avgSeoScore =
            (if length history > 0 then rounded_mean_seoScore history else Finite 0),
          totalWordCount = foldl (\<lambda>sum item. sum + or_zero (h_wordCount item)) 0 history\<rparr>)"

section \<open>Prompt builder and response normaliser (rewriteContentWithSEO)\<close>

subsection \<open>Values of the runtime\<close>

text \<open>
  A string is the list of its code units; the model covers the code units below 256
  (Latin-1), which is where every literal of the source lies. A letter with an accent is
  written by its code, for example \<open>CHR 0xE3\<close> for a with tilde.

  What \<^verbatim>\<open>JSON.parse\<close> returns is a \<open>json\<close> value; an object is the list of its
  properties, each key once. A number is kept as an exact rational.
\<close>

datatype json =
    JNull
  | JBool bool
  | JNum rat
  | JStr string
  | JArr "json list"
  | JObj "(string \<times> json) list"

text \<open>
  A thrown value: an instance of \<^verbatim>\<open>Error\<close> (also a \<^verbatim>\<open>TypeError\<close> or a
  \<^verbatim>\<open>SyntaxError\<close> raised by the runtime) with its message, or any other value.
\<close>

datatype thrown = Error string | NonError

text \<open>Truthiness, as \<^verbatim>\<open>||\<close> and \<^verbatim>\<open>?:\<close> test it.\<close>

fun truthy :: "json \<Rightarrow> bool" where
  "truthy JNull = False"
| "truthy (JBool b) = b"
| "truthy (JNum n) = (n \<noteq> 0)"
| "truthy (JStr s) = (s \<noteq> [])"
| "truthy (JArr xs) = True"
| "truthy (JObj kvs) = True"

text \<open>An optional string parameter is truthy when it is given and not empty.\<close>

definition given :: "string option \<Rightarrow> bool" where
  "given p = (case p of None \<Rightarrow> False | Some s \<Rightarrow> s \<noteq> [])"

text \<open>
  Reading a property \<^verbatim>\<open>v.k\<close> of a value that is neither \<^verbatim>\<open>null\<close> nor
  \<^verbatim>\<open>undefined\<close>; \<open>None\<close> is \<^verbatim>\<open>undefined\<close>. None of the names the source reads is a
  built-in property of a string, a number, a boolean or an array.
\<close>

fun get_prop :: "json \<Rightarrow> string \<Rightarrow> json option" where
  "get_prop (JObj kvs) k = map_of kvs k"
| "get_prop v k = None"

text \<open>Optional chaining \<^verbatim>\<open>a?.k\<close>.\<close>

definition opt_prop :: "json option \<Rightarrow> string \<Rightarrow> json option" where
  "opt_prop a k = (case a of None \<Rightarrow> None | Some JNull \<Rightarrow> None | Some v \<Rightarrow> get_prop v k)"

text \<open>\<^verbatim>\<open>a || b\<close> and \<^verbatim>\<open>a || (c ? b : undefined)\<close>.\<close>

definition or_else :: "json option \<Rightarrow> json \<Rightarrow> json" where
  "or_else a b = (case a of None \<Rightarrow> b | Some v \<Rightarrow> if truthy v then v else b)"

definition or_maybe :: "json option \<Rightarrow> json option \<Rightarrow> json option" where
  "or_maybe a b = (case a of None \<Rightarrow> b | Some v \<Rightarrow> if truthy v then Some v else b)"

text \<open>
  \<^verbatim>\<open>a?.slice(0, n)\<close>: arrays and strings have \<^verbatim>\<open>slice\<close>; on any other value that is
  not nullish the call raises a \<^verbatim>\<open>TypeError\<close> (the wording is V8's; \<open>expr\<close> is the
  text of the callee).
\<close>

definition opt_slice :: "json option \<Rightarrow> nat \<Rightarrow> string \<Rightarrow> thrown + json option" where
  "opt_slice a n expr =
     (case a of
        None \<Rightarrow> Inr None
      | Some JNull \<Rightarrow> Inr None
      | Some (JArr xs) \<Rightarrow> Inr (Some (JArr (take n xs)))
      | Some (JStr s) \<Rightarrow> Inr (Some (JStr (take n s)))
      | Some _ \<Rightarrow> Inl (Error (expr @ '' is not a function'')))"

subsection \<open>Strings: lower case, whitespace, matches, decimal output\<close>

text \<open>\<^verbatim>\<open>toLowerCase\<close> on Latin-1: A to Z and the accented capitals but the times sign.\<close>

definition lower_char :: "char \<Rightarrow> char" where
  "lower_char c =
     (let n = (of_char c :: nat)
      in if (65 \<le> n \<and> n \<le> 90) \<or> (192 \<le> n \<and> n \<le> 222 \<and> n \<noteq> 215)
         then char_of (n + 32) else c)"

definition toLowerCase :: "string \<Rightarrow> string" where
  "toLowerCase s = map lower_char s"

text \<open>The class \<^verbatim>\<open>\s\<close> below 256: tab, line feed, vertical tab, form feed, carriage
  return, space and no-break space.\<close>

definition is_space :: "char \<Rightarrow> bool" where
  "is_space c = ((of_char c :: nat) \<in> {9, 10, 11, 12, 13, 32, 160})"

text \<open>
  \<^verbatim>\<open>s.split(/\s+/)\<close>: the pieces between the maximal runs of whitespace. The empty
  string gives one empty piece, and a run at either end gives an empty piece there.
\<close>

function split_ws :: "string \<Rightarrow> string list" where
  "split_ws [] = [[]]"
| "split_ws (c # cs) =
     (if is_space c then [] # split_ws (dropWhile is_space cs)
      else (case split_ws cs of [] \<Rightarrow> [[c]] | w # ws \<Rightarrow> (c # w) # ws))"
  by pat_completeness auto
termination
  by (relation "measure length") (auto simp: length_dropWhile_le less_Suc_eq_le)

text \<open>The characters with a meaning of their own in a regular expression.\<close>

definition is_syntax_char :: "char \<Rightarrow> bool" where
  "is_syntax_char c =
     (c \<in> set (''^$.*+?()[]{}|'' @ [CHR 0x5C]))"

definition starts_with :: "string \<Rightarrow> string \<Rightarrow> bool" where
  "starts_with p t = (take (length p) t = p)"

text \<open>
  \<^verbatim>\<open>(t.match(new RegExp(p, 'g')) || []).length\<close> for a pattern \<open>p\<close> without syntax
  characters: every character of \<open>p\<close> matches itself, the search goes from left to right
  and resumes behind each match; the empty pattern matches once at every position.
\<close>

fun count_matches :: "string \<Rightarrow> string \<Rightarrow> nat" where
  "count_matches [] t = length t + 1"
| "count_matches (c # p) [] = 0"
| "count_matches (c # p) (d # t) =
     (if starts_with (c # p) (d # t) then 1 + count_matches (c # p) (drop (length p) t)
      else count_matches (c # p) t)"

text \<open>\<^verbatim>\<open>s.includes(sub)\<close>.\<close>

fun str_includes :: "string \<Rightarrow> string \<Rightarrow> bool" where
  "str_includes [] sub = (sub = [])"
| "str_includes (c # cs) sub = (starts_with sub (c # cs) \<or> str_includes cs sub)"

text \<open>Decimal digits of a natural number.\<close>

definition digit_char :: "nat \<Rightarrow> char" where
  "digit_char d = char_of (48 + d)"

function show_nat :: "nat \<Rightarrow> string" where
  "show_nat n = (if n < 10 then [digit_char n] else show_nat (n div 10) @ [digit_char (n mod 10)])"
  by pat_completeness auto
termination
  by (relation "measure id") auto

declare show_nat.simps [simp del]

text \<open>
  \<^verbatim>\<open>x.toFixed(1)\<close>: the integer \<open>n\<close> with \<open>n / 10\<close> nearest to \<open>x\<close> (the larger of two),
  printed with one digit behind the point. The value is taken exactly, where the source
  has a double; the two can differ in the last digit, never in the shape. (From \<open>10^21\<close>
  on \<^verbatim>\<open>toFixed\<close> prints an exponent; a density stays far below, since the matches
  are at most one more than the code units of the text.)
\<close>

definition toFixed1 :: "rat \<Rightarrow> string" where
  "toFixed1 x =
     (let n = nat \<lfloor>\<bar>x\<bar> * 10 + 1 / 2\<rfloor>
      in (if x < 0 then ''-'' else []) @ show_nat (n div 10) @ ''.'' @ [digit_char (n mod 10)])"

subsection \<open>The result and the inputs\<close>

record featured_image =
  image_title :: json
  image_altText :: json
  image_keywords :: json

text \<open>
  \<^verbatim>\<open>SEORewriteResult\<close> as it exists at run time: a field that is copied from the parsed
  reply holds whatever value the reply had there, and \<open>None\<close> is \<^verbatim>\<open>undefined\<close>.
\<close>

record SEORewriteResult =
  rewrittenContent :: "json option"
  wordCount :: int
  keywordDensity :: string
  seoScore :: int
  readabilityScore :: string
  metaDescription :: string
  helpfulnessScore :: json
  qualityScore :: json
  eatScore :: json
  structureScore :: json
  aiOptimizationScore :: json
  featuredImage :: featured_image
  faq :: json
  caseStudies :: json
  richContent :: json
  citations :: json
  internalLinking :: json
  entities :: json
  schemaMarkup :: json
  authorBio :: "json option"
  ctaSection :: "json option"

text \<open>The parameters of \<^verbatim>\<open>rewriteContentWithSEO\<close>; \<open>webSearchFunction\<close> says whether the
  callback was passed.\<close>

record rewrite_args =
  originalContent :: string
  targetKeyword :: string
  keywordLink :: "string option"
  companyName :: "string option"
  authorName :: "string option"
  authorDescription :: "string option"
  apiKey :: "string option"
  webSearchFunction :: bool

text \<open>
  What the call meets outside itself:
  \<^item> \<open>env_OPENAI_API_KEY\<close>: \<^verbatim>\<open>process.env.OPENAI_API_KEY\<close>;
  \<^item> \<open>getDynamicCaseStudies\<close>: how the case-study lookup ends, when it is called;
  \<^item> \<open>chat_completions_create\<close>: how the request to the text-generation endpoint ends:
    it throws, or it answers with the \<^verbatim>\<open>message.content\<close> of each choice
    (\<open>None\<close> is \<^verbatim>\<open>null\<close>). The prompt that is sent is a template filled with the
    parameters, the case studies and the internal links; the reply is not bound by it;
  \<^item> \<open>JSON_parse\<close>: \<^verbatim>\<open>JSON.parse\<close>, \<open>None\<close> when it throws;
  \<^item> \<open>RegExp_match_count\<close>: for a pattern with syntax characters, the message of the
    \<^verbatim>\<open>SyntaxError\<close> that \<^verbatim>\<open>new RegExp(p, 'g')\<close> raises, or else the number of
    matches in the text.
  \<^verbatim>\<open>generateValidInternalLinks\<close> belongs to a module that is not part of the sources;
  it returns a list, which only the prompt uses.
\<close>

record runtime =
  env_OPENAI_API_KEY :: "string option"
  getDynamicCaseStudies :: "thrown + json list"
  chat_completions_create :: "thrown + string option list"
  JSON_parse :: "string \<Rightarrow> json option"
  RegExp_match_count :: "string \<Rightarrow> string \<Rightarrow> string + nat"

subsection \<open>Messages and default values\<close>

definition msg_not_configured :: string where
  "msg_not_configured =
     ''Chave de API do OpenAI n'' @ [CHR 0xE3] @ ''o configurada. Configure nas configura''
       @ [CHR 0xE7, CHR 0xF5] @ ''es da aplica'' @ [CHR 0xE7, CHR 0xE3] @ ''o.''"

definition msg_empty_reply :: string where
  "msg_empty_reply = ''Resposta vazia da API OpenAI''"

definition msg_key_rejected :: string where
  "msg_key_rejected = ''Chave da API OpenAI n'' @ [CHR 0xE3] @ ''o configurada corretamente''"

definition msg_quota :: string where
  "msg_quota = ''Limite da API OpenAI excedido. Tente novamente mais tarde''"

definition msg_rate_limit :: string where
  "msg_rate_limit =
     ''Muitas requisi'' @ [CHR 0xE7, CHR 0xF5] @ ''es. Aguarde alguns minutos e tente novamente''"

definition msg_processing :: string where
  "msg_processing = ''Erro no processamento do conte'' @ [CHR 0xFA] @ ''do: ''"

definition msg_unknown :: string where
  "msg_unknown = ''Erro desconhecido''"

text \<open>The source writes each default twice, once per path; the text is the same.\<close>

definition default_metaDescription :: "string \<Rightarrow> string" where
  "default_metaDescription kw = kw @ '' - resumo otimizado para SEO''"

definition default_featuredImage :: "string \<Rightarrow> featured_image" where
  "default_featuredImage kw =
     \<lparr>image_title = JStr (''Imagem sobre '' @ kw),
      image_altText = JStr (kw @ '' - imagem ilustrativa''),
      image_keywords = JArr [JStr kw]\<rparr>"

definition default_faq :: "string \<Rightarrow> json" where
  "default_faq kw =
     JArr [JObj [(''question'', JStr (''O que '' @ [CHR 0xE9] @ '' '' @ kw @ ''?'')),
                 (''answer'', JStr (''Resposta baseada no conte'' @ [CHR 0xFA] @ ''do reescrito.''))]]"

definition default_richContent :: json where
  "default_richContent =
     JObj [(''suggestedGraphics'', JArr []), (''suggestedImages'', JArr []),
           (''visualElements'', JArr [])]"

definition default_entities :: json where
  "default_entities =
     JObj [(''brands'', JArr []), (''people'', JArr []), (''locations'', JArr []),
           (''concepts'', JArr [])]"

definition default_schemaMarkup :: json where
  "default_schemaMarkup =
     JObj [(''articleSchema'', JBool True), (''authorSchema'', JBool False),
           (''faqSchema'', JBool False), (''organizationSchema'', JBool False),
           (''reviewSchema'', JBool False)]"

text \<open>\<^verbatim>\<open>authorName ? `Biografia do autor ${authorName}` : undefined\<close>\<close>

definition default_authorBio :: "string option \<Rightarrow> json option" where
  "default_authorBio author =
     (case author of
        None \<Rightarrow> None
      | Some n \<Rightarrow> if n \<noteq> [] then Some (JStr (''Biografia do autor '' @ n)) else None)"

text \<open>\<^verbatim>\<open>companyName ? { title: ..., text: ..., buttonText: ... } : undefined\<close>\<close>

definition default_ctaSection :: "string option \<Rightarrow> string \<Rightarrow> json option" where
  "default_ctaSection company kw =
     (case company of
        None \<Rightarrow> None
      | Some c \<Rightarrow>
          if c \<noteq> [] then
            Some (JObj
              [(''title'', JStr (''Transforme seu neg'' @ [CHR 0xF3] @ ''cio com '' @ kw)),
               (''text'', JStr (''A '' @ c @ '' '' @ [CHR 0xE9] @ '' especialista em '' @ kw
                  @ '' e pode ajudar voc'' @ [CHR 0xEA] @ '' a alcan'' @ [CHR 0xE7]
                  @ ''ar os mesmos resultados. Entre em contato conosco hoje mesmo!'')),
               (''buttonText'', JStr (''Falar com '' @ c))])
          else None)"

subsection \<open>The metrics\<close>

text \<open>\<^verbatim>\<open>content.split(/\s+/).length\<close>\<close>

definition wordCount_of :: "string \<Rightarrow> int" where
  "wordCount_of text = int (length (split_ws text))"

text \<open>
  \<^verbatim>\<open>(content.toLowerCase().match(new RegExp(targetKeyword.toLowerCase(), 'g')) || []).length\<close>:
  the keyword is the source of a regular expression.
\<close>

definition keywordOccurrences ::
  "(string \<Rightarrow> string \<Rightarrow> string + nat) \<Rightarrow> string \<Rightarrow> string \<Rightarrow> thrown + int" where
  "keywordOccurrences regexp text kw =
     (let t = toLowerCase text; p = toLowerCase kw
      in if list_ex is_syntax_char p
         then (case regexp p t of Inl m \<Rightarrow> Inl (Error m) | Inr n \<Rightarrow> Inr (int n))
         else Inr (int (count_matches p t)))"

text \<open>\<^verbatim>\<open>wordCount > 0 ? ((keywordOccurrences / wordCount) * 100).toFixed(1) + '%' : '0%'\<close>\<close>

definition keywordDensity_of :: "int \<Rightarrow> int \<Rightarrow> string" where
  "keywordDensity_of occ wc =
     (if wc > 0 then toFixed1 ((of_int occ / of_int wc) * 100) @ ''%'' else ''0%'')"

text \<open>\<^verbatim>\<open>Math.min(100, Math.max(1, (keywordOccurrences * 10) + (wordCount > 300 ? 20 : 10)))\<close>\<close>

definition seoScore_of :: "int \<Rightarrow> int \<Rightarrow> int" where
  "seoScore_of occ wc = min 100 (max 1 (occ * 10 + (if wc > 300 then 20 else 10)))"

definition readabilityScore_of :: "int \<Rightarrow> string" where
  "readabilityScore_of wc = (if wc > 500 then ''Boa'' else ''Regular'')"

subsection \<open>The parse-failure path\<close>

text \<open>
  The \<^verbatim>\<open>catch\<close> of \<^verbatim>\<open>JSON.parse\<close>: the reply is the rewritten text. Building the
  regular expression can raise, and nothing in this block catches that.
\<close>

definition plain_text_result ::
  "runtime \<Rightarrow> rewrite_args \<Rightarrow> json list \<Rightarrow> string \<Rightarrow> thrown + SEORewriteResult" where
  "plain_text_result rt a studies content =
     (let wc = wordCount_of content
      in case keywordOccurrences (RegExp_match_count rt) content (targetKeyword a) of
           Inl e \<Rightarrow> Inl e
         | Inr occ \<Rightarrow>
             Inr \<lparr>rewrittenContent = Some (JStr content),
                  wordCount = wc,
                  keywordDensity = keywordDensity_of occ wc,
                  seoScore = seoScore_of occ wc,
                  readabilityScore = readabilityScore_of wc,
                  metaDescription = default_metaDescription (targetKeyword a),
                  helpfulnessScore = JNum 85,
                  qualityScore = JNum 80,
                  eatScore = JNum 75,
                  structureScore = JNum 82,
                  aiOptimizationScore = JNum 78,
                  featuredImage = default_featuredImage (targetKeyword a),
                  faq = default_faq (targetKeyword a),
                  caseStudies = JArr studies,
                  richContent = default_richContent,
                  citations = JArr [],
                  internalLinking = JArr [],
                  entities = default_entities,
                  schemaMarkup = default_schemaMarkup,
                  authorBio = default_authorBio (authorName a),
                  ctaSection = default_ctaSection (companyName a) (targetKeyword a)\<rparr>)"

subsection \<open>The parse-success path\<close>

text \<open>
  \<^verbatim>\<open>result.metaDescription?.substring(0, 155) || `${targetKeyword} - resumo otimizado para SEO`\<close>:
  only a string has \<^verbatim>\<open>substring\<close>.
\<close>

definition metaDescription_of :: "json \<Rightarrow> string \<Rightarrow> thrown + string" where
  "metaDescription_of result kw =
     (case get_prop result ''metaDescription'' of
        None \<Rightarrow> Inr (default_metaDescription kw)
      | Some JNull \<Rightarrow> Inr (default_metaDescription kw)
      | Some (JStr s) \<Rightarrow>
          Inr (if take 155 s \<noteq> [] then take 155 s else default_metaDescription kw)
      | Some _ \<Rightarrow> Inl (Error ''result.metaDescription?.substring is not a function''))"

text \<open>
  The statements after a successful \<^verbatim>\<open>JSON.parse\<close>, in the order in which they can
  raise: the first property read (on \<^verbatim>\<open>null\<close>), \<^verbatim>\<open>split\<close> (only a string has it),
  the regular expression, \<^verbatim>\<open>substring\<close>, and the two \<^verbatim>\<open>slice\<close> calls. The messages
  of the \<^verbatim>\<open>TypeError\<close>s are V8's.
\<close>

definition parsed_result ::
  "runtime \<Rightarrow> rewrite_args \<Rightarrow> json list \<Rightarrow> json \<Rightarrow> thrown + SEORewriteResult" where
  "parsed_result rt a studies result =
     (case result of
        JNull \<Rightarrow>
          Inl (Error (''Cannot read properties of null (reading '' @ [CHR 0x27]
                 @ ''rewrittenContent'' @ [CHR 0x27] @ '')''))
      | _ \<Rightarrow>
         (case or_else (get_prop result ''rewrittenContent'') (JStr []) of
            JStr text \<Rightarrow>
              (let wc = wordCount_of text
               in case keywordOccurrences (RegExp_match_count rt) text (targetKeyword a) of
                 Inl e \<Rightarrow> Inl e
               | Inr occ \<Rightarrow>
              (case metaDescription_of result (targetKeyword a) of
                 Inl e \<Rightarrow> Inl e
               | Inr description \<Rightarrow>
              (case opt_slice (get_prop result ''faq'') 8 ''result.faq?.slice'' of
                 Inl e \<Rightarrow> Inl e
               | Inr faq8 \<Rightarrow>
              (case opt_slice (get_prop result ''caseStudies'') 3 ''result.caseStudies?.slice'' of
                 Inl e \<Rightarrow> Inl e
               | Inr caseStudies3 \<Rightarrow>
                 Inr \<lparr>rewrittenContent = get_prop result ''rewrittenContent'',
                      wordCount = wc,
                      keywordDensity = keywordDensity_of occ wc,
                      seoScore = seoScore_of occ wc,
                      readabilityScore = readabilityScore_of wc,
                      metaDescription = description,
                      helpfulnessScore = or_else (get_prop result ''helpfulnessScore'') (JNum 85),
                      qualityScore = or_else (get_prop result ''qualityScore'') (JNum 80),
                      eatScore = or_else (get_prop result ''eatScore'') (JNum 75),
                      structureScore = or_else (get_prop result ''structureScore'') (JNum 82),
                      aiOptimizationScore =
                        or_else (get_prop result ''aiOptimizationScore'') (JNum 78),
                      featuredImage =
                        \<lparr>image_title =
                           or_else (opt_prop (get_prop result ''featuredImage'') ''title'')
                             (image_title (default_featuredImage (targetKeyword a))),
                         image_altText =
                           or_else (opt_prop (get_prop result ''featuredImage'') ''altText'')
                             (image_altText (default_featuredImage (targetKeyword a))),
                         image_keywords =
                           or_else (opt_prop (get_prop result ''featuredImage'') ''keywords'')
                             (image_keywords (default_featuredImage (targetKeyword a)))\<rparr>,
                      faq = or_else faq8 (default_faq (targetKeyword a)),
                      caseStudies = or_else caseStudies3 (JArr studies),
                      richContent = or_else (get_prop result ''richContent'') default_richContent,
                      citations = or_else (get_prop result ''citations'') (JArr []),
                      internalLinking = or_else (get_prop result ''internalLinking'') (JArr []),
                      entities = or_else (get_prop result ''entities'') default_entities,
                      schemaMarkup =
                        or_else (get_prop result ''schemaMarkup'') default_schemaMarkup,
                      authorBio =
                        or_maybe (get_prop result ''authorBio'') (default_authorBio (authorName a)),
                      ctaSection =
                        or_maybe (get_prop result ''ctaSection'')
                          (default_ctaSection (companyName a) (targetKeyword a))\<rparr>))))
          | _ \<Rightarrow> Inl (Error ''rewrittenContent.split is not a function'')))"

subsection \<open>The whole call\<close>

text \<open>
  \<^verbatim>\<open>const openaiApiKey = apiKey || process.env.OPENAI_API_KEY;\<close>
\<close>

definition openaiApiKey :: "runtime \<Rightarrow> rewrite_args \<Rightarrow> string option" where
  "openaiApiKey rt a = (if given (apiKey a) then apiKey a else env_OPENAI_API_KEY rt)"

text \<open>\<^verbatim>\<open>!openaiApiKey || openaiApiKey === "dummy-key"\<close>\<close>

definition not_configured :: "string option \<Rightarrow> bool" where
  "not_configured key = (\<not> given key \<or> key = Some ''dummy-key'')"

text \<open>
  The case studies: empty without a search callback, and empty when the lookup raises
  (the error is logged and dropped).
\<close>

definition realCaseStudies :: "runtime \<Rightarrow> rewrite_args \<Rightarrow> json list" where
  "realCaseStudies rt a =
     (if webSearchFunction a
      then (case getDynamicCaseStudies rt of Inl error \<Rightarrow> [] | Inr found \<Rightarrow> found)
      else [])"

text \<open>
  The body of the outer \<^verbatim>\<open>try\<close>, from the credential check on; every
  \<^verbatim>\<open>throw\<close> leaves the block.
\<close>

definition try_block :: "runtime \<Rightarrow> rewrite_args \<Rightarrow> thrown + SEORewriteResult" where
  "try_block rt a =
     (let studies = realCaseStudies rt a
      in if not_configured (openaiApiKey rt a)
         then Inl (Error msg_not_configured)
         else
          (case chat_completions_create rt of
             Inl error \<Rightarrow> Inl error
           | Inr [] \<Rightarrow>
               Inl (Error (''Cannot read properties of undefined (reading '' @ [CHR 0x27]
                      @ ''message'' @ [CHR 0x27] @ '')''))
           | Inr (None # _) \<Rightarrow> Inl (Error msg_empty_reply)
           | Inr (Some content # _) \<Rightarrow>
               if content = [] then Inl (Error msg_empty_reply)
               else
                (case JSON_parse rt content of
                   None \<Rightarrow> plain_text_result rt a studies content
                 | Some result \<Rightarrow> parsed_result rt a studies result)))"

text \<open>
  The outer \<^verbatim>\<open>catch\<close>: the message of the \<^verbatim>\<open>Error\<close> that the caller receives.
\<close>

definition catch_block :: "thrown \<Rightarrow> string" where
  "catch_block error =
     (case error of
        Error message \<Rightarrow>
          if str_includes message ''API key'' then msg_key_rejected
          else if str_includes message ''quota'' then msg_quota
          else if str_includes message ''rate limit'' then msg_rate_limit
          else msg_processing @ message
      | NonError \<Rightarrow> msg_processing @ msg_unknown)"

text \<open>\<open>Inl\<close> is the message of the \<^verbatim>\<open>Error\<close> the promise is rejected with.\<close>

definition rewriteContentWithSEO :: "runtime \<Rightarrow> rewrite_args \<Rightarrow> string + SEORewriteResult" where
  "rewriteContentWithSEO rt a =
     (case try_block rt a of
        Inl error \<Rightarrow> Inl (catch_block error)
      | Inr r \<Rightarrow> Inr r)"

subsection \<open>The word count in the words of the specification\<close>

text \<open>
  The specification calls the word count the number of whitespace-separated tokens of
  the text. This second definition follows those words, for comparison with
  \<open>wordCount_of\<close>: a token begins at every character that is not whitespace and does
  not continue a token.
\<close>

fun count_tokens :: "bool \<Rightarrow> string \<Rightarrow> nat" where
  "count_tokens inside [] = 0"
| "count_tokens inside (c # cs) =
     (if is_space c then count_tokens False cs
      else (if inside then 0 else 1) + count_tokens True cs)"

definition spec_whitespace_token_count :: "string \<Rightarrow> int" where
  "spec_whitespace_token_count s = int (count_tokens False s)"

definition is_digit :: "char \<Rightarrow> bool" where
  "is_digit c = (c \<in> set ''0123456789'')"

subsection \<open>Scenarios\<close>

text \<open>
  A runtime without credential in the environment and without case studies, whose
  endpoint answers with one choice, the text \<open>reply\<close>; \<open>parsed\<close> is what
  \<^verbatim>\<open>JSON.parse\<close> makes of that text (\<open>None\<close> when it is not JSON). The keywords of the
  scenarios have no syntax character, so the regular-expression engine is never asked.
\<close>

definition answering :: "string \<Rightarrow> json option \<Rightarrow> runtime" where
  "answering reply parsed =
     \<lparr>env_OPENAI_API_KEY = None,
      getDynamicCaseStudies = Inr [],
      chat_completions_create = Inr [Some reply],
      JSON_parse = (\<lambda>s. if s = reply then parsed else None),
      RegExp_match_count = (\<lambda>p t. Inr 0)\<rparr>"

text \<open>A call with a keyword and an explicit key, and none of the optional parameters.\<close>

definition call_with :: "string \<Rightarrow> rewrite_args" where
  "call_with kw =
     \<lparr>originalContent = ''Teste.'', targetKeyword = kw, keywordLink = None,
      companyName = None, authorName = None, authorDescription = None,
      apiKey = Some ''sk-test'', webSearchFunction = False\<rparr>"

section \<open>Properties of the persistence adapter\<close>

lemma configs_saveConfigs:
  "configs (saveConfigs calls st) =
     (if calls = [] then configs st
      else [\<lparr>values = fst (last calls), updatedAt = snd (last calls)\<rparr>])"
proof (induction calls arbitrary: st)
  case Nil
  show ?case by simp
next
  case (Cons call calls)
  obtain configData now where call: "call = (configData, now)" by (cases call)
  show ?case
    by (cases "calls = []") (simp_all add: call Cons.IH saveConfig_def Let_def)
qed

lemma getConfig_single: "configs st = [row] \<Longrightarrow> getConfig st = Some row"
  by (simp add: getConfig_def limit_def orderBy_desc_def)

text \<open>
  Claim C3. After one or more \<open>saveConfig\<close> calls in sequence, from any store and with
  any clock readings, the configuration table holds exactly one row, and \<open>getConfig\<close>
  returns it: the record of the last call, stamped with the time of that call.
\<close>

theorem saveConfig_replaces:
  "calls \<noteq> [] \<Longrightarrow>
     length (configs (saveConfigs calls st)) = 1 \<and>
     getConfig (saveConfigs calls st)
       = Some \<lparr>values = fst (last calls), updatedAt = snd (last calls)\<rparr>"
  by (simp add: configs_saveConfigs getConfig_single)

text \<open>
  Two calls in sequence on a store that already holds a newer row, the second call with
  the older clock reading: the second record is the one that remains.
\<close>

theorem saveConfig_replaces_witness:
  "[(''first'', 20), (''second'', 10 :: nat)] \<noteq> [] \<and>
   length (configs (saveConfigs [(''first'', 20), (''second'', 10)]
      \<lparr>configs = [\<lparr>values = ''old'', updatedAt = 30\<rparr>], rewriteHistory = []\<rparr>)) = 1 \<and>
   getConfig (saveConfigs [(''first'', 20), (''second'', 10)]
      \<lparr>configs = [\<lparr>values = ''old'', updatedAt = 30\<rparr>], rewriteHistory = []\<rparr>)
     = Some \<lparr>values = ''second'', updatedAt = 10\<rparr>"
  using saveConfig_replaces [of "[(''first'', 20), (''second'', 10)]"
      "\<lparr>configs = [\<lparr>values = ''old'', updatedAt = 30\<rparr>], rewriteHistory = []\<rparr>"]
  by simp

lemma foldl_plus_sum_list:
  "foldl (\<lambda>sum item. sum + f item) (acc :: int) items = acc + sum_list (map f items)"
  by (induction items arbitrary: acc) simp_all

lemma or_zero_eq: "or_zero x = (case x of None \<Rightarrow> 0 | Some v \<Rightarrow> v)"
  by (simp add: or_zero_def split: option.splits)

text \<open>
  Without its guard the average would not be a number on the empty history: the quotient
  there is \<^verbatim>\<open>0 / 0\<close>.
\<close>

lemma rounded_mean_seoScore_empty: "rounded_mean_seoScore [] = NaN"
  by (simp add: rounded_mean_seoScore_def js_divide_def)

lemma rounded_mean_seoScore_nonempty:
  "history \<noteq> [] \<Longrightarrow>
     rounded_mean_seoScore history =
       Finite (of_int (round ((of_int (\<Sum>item\<leftarrow>history.
                                 case h_seoScore item of None \<Rightarrow> 0 | Some v \<Rightarrow> v) :: rat)
                               / of_nat (length history))))"
  by (simp add: rounded_mean_seoScore_def js_divide_def foldl_plus_sum_list or_zero_eq round_def)

text \<open>
  Claim C10. On an empty history \<open>getStats\<close> returns three zeros: the test on the length
  keeps the division \<^verbatim>\<open>0 / 0\<close>, whose result is \<^verbatim>\<open>NaN\<close>, from being
  evaluated. Otherwise \<open>totalRewrites\<close> is the number of entries, \<open>avgSeoScore\<close> is the mean
  of the scores rounded to the nearest integer and \<open>totalWordCount\<close> is the sum of the
  word counts, a missing value counting as 0 in both. In every case \<open>avgSeoScore\<close> is a
  finite number.
\<close>

theorem getStats_summary:
  "getStats st =
     (if rewriteHistory st = []
      then \<lparr>totalRewrites = 0, avgSeoScore = Finite 0, totalWordCount = 0\<rparr>
      else \<lparr>totalRewrites = length (rewriteHistory st),
            avgSeoScore =
              Finite (of_int (round ((of_int (\<Sum>item\<leftarrow>rewriteHistory st.
                                case h_seoScore item of None \<Rightarrow> 0 | Some v \<Rightarrow> v) :: rat)
                       / of_nat (length (rewriteHistory st))))),
            totalWordCount =
              (\<Sum>item\<leftarrow>rewriteHistory st. case h_wordCount item of None \<Rightarrow> 0 | Some v \<Rightarrow> v)\<rparr>) \<and>
   avgSeoScore (getStats st) \<noteq> NaN \<and>
   avgSeoScore (getStats st) \<noteq> PosInfinity \<and>
   avgSeoScore (getStats st) \<noteq> NegInfinity \<and>
   rounded_mean_seoScore [] = NaN"
  by (simp add: getStats_def Let_def foldl_plus_sum_list or_zero_eq
        rounded_mean_seoScore_nonempty rounded_mean_seoScore_empty)

section \<open>Properties of the rewrite operation\<close>

subsection \<open>What a returned result is made of\<close>

lemma plain_text_result_fields:
  assumes "plain_text_result rt a studies content = Inr r"
  shows "\<exists>occ. keywordOccurrences (RegExp_match_count rt) content (targetKeyword a) = Inr occ \<and>
           rewrittenContent r = Some (JStr content) \<and>
           wordCount r = wordCount_of content \<and>
           keywordDensity r = keywordDensity_of occ (wordCount_of content) \<and>
           seoScore r = seoScore_of occ (wordCount_of content) \<and>
           metaDescription r = default_metaDescription (targetKeyword a) \<and>
           richContent r = default_richContent \<and>
           citations r = JArr [] \<and>
           internalLinking r = JArr [] \<and>
           schemaMarkup r = default_schemaMarkup \<and>
           authorBio r = default_authorBio (authorName a) \<and>
           ctaSection r = default_ctaSection (companyName a) (targetKeyword a)"
  using assms by (auto simp: plain_text_result_def Let_def split: sum.splits)

lemma parsed_result_fields:
  assumes "parsed_result rt a studies result = Inr r"
  shows "\<exists>text occ.
           or_else (get_prop result ''rewrittenContent'') (JStr []) = JStr text \<and>
           keywordOccurrences (RegExp_match_count rt) text (targetKeyword a) = Inr occ \<and>
           rewrittenContent r = get_prop result ''rewrittenContent'' \<and>
           wordCount r = wordCount_of text \<and>
           keywordDensity r = keywordDensity_of occ (wordCount_of text) \<and>
           seoScore r = seoScore_of occ (wordCount_of text) \<and>
           metaDescription_of result (targetKeyword a) = Inr (metaDescription r) \<and>
           authorBio r = or_maybe (get_prop result ''authorBio'') (default_authorBio (authorName a)) \<and>
           ctaSection r = or_maybe (get_prop result ''ctaSection'')
                            (default_ctaSection (companyName a) (targetKeyword a))"
  using assms
  by (auto simp: parsed_result_def Let_def split: json.splits sum.splits)

lemma try_block_Inr:
  assumes "try_block rt a = Inr r"
  shows "\<not> not_configured (openaiApiKey rt a) \<and>
         (\<exists>content others. chat_completions_create rt = Inr (Some content # others) \<and>
            content \<noteq> [] \<and>
            (case JSON_parse rt content of
               None \<Rightarrow> plain_text_result rt a (realCaseStudies rt a) content = Inr r
             | Some result \<Rightarrow> parsed_result rt a (realCaseStudies rt a) result = Inr r))"
  using assms
  by (auto simp: try_block_def Let_def split: if_splits sum.splits list.splits option.splits)

lemma rewrite_Inr: "rewriteContentWithSEO rt a = Inr r \<longleftrightarrow> try_block rt a = Inr r"
  by (simp add: rewriteContentWithSEO_def split: sum.splits)

lemma seoScore_of_range: "1 \<le> seoScore_of occ wc \<and> seoScore_of occ wc \<le> 100"
  by (simp add: seoScore_of_def)

subsection \<open>What the caller receives on failure\<close>

lemma catch_block_forms:
  "catch_block e = msg_key_rejected \<or> catch_block e = msg_quota \<or>
   catch_block e = msg_rate_limit \<or> (\<exists>cause. catch_block e = msg_processing @ cause)"
  by (cases e) (simp_all add: catch_block_def)

lemma catch_block_empty_reply:
  "catch_block (Error msg_empty_reply) = msg_processing @ msg_empty_reply"
  by (simp add: catch_block_def msg_empty_reply_def starts_with_def)

lemma catch_block_not_configured:
  "catch_block (Error msg_not_configured) = msg_processing @ msg_not_configured"
  by (simp add: catch_block_def msg_not_configured_def starts_with_def)

text \<open>
  Claim C1, as amended. Every failure reaches the caller as an \<^verbatim>\<open>Error\<close> whose message
  is one of the three fixed messages (key rejected, quota, rate limit) or the processing
  prefix followed by the message of the cause. With a usable credential, a reply that is
  not empty and is not JSON does not fail as long as the regular expression of the keyword
  can be built: the call returns the best-effort result, with the reply as the rewritten
  text. A reply that is \<^verbatim>\<open>null\<close> or empty is not degraded: the call fails with the
  processing prefix followed by the empty-reply message.
\<close>

theorem rewrite_outcome:
  "(\<forall>m. rewriteContentWithSEO rt a = Inl m \<longrightarrow>
        m = msg_key_rejected \<or> m = msg_quota \<or> m = msg_rate_limit \<or>
        (\<exists>cause. m = msg_processing @ cause)) \<and>
   (\<forall>content others occ.
        \<not> not_configured (openaiApiKey rt a) \<and>
        chat_completions_create rt = Inr (Some content # others) \<and> content \<noteq> [] \<and>
        JSON_parse rt content = None \<and>
        keywordOccurrences (RegExp_match_count rt) content (targetKeyword a) = Inr occ \<longrightarrow>
        (\<exists>r. rewriteContentWithSEO rt a = Inr r \<and>
             plain_text_result rt a (realCaseStudies rt a) content = Inr r \<and>
             rewrittenContent r = Some (JStr content))) \<and>
   (\<forall>reply others.
        \<not> not_configured (openaiApiKey rt a) \<and>
        chat_completions_create rt = Inr (reply # others) \<and> (reply = None \<or> reply = Some []) \<longrightarrow>
        rewriteContentWithSEO rt a = Inl (msg_processing @ msg_empty_reply))"
proof (intro conjI allI impI)
  fix m
  assume "rewriteContentWithSEO rt a = Inl m"
  then obtain e where "m = catch_block e"
    by (auto simp: rewriteContentWithSEO_def split: sum.splits)
  with catch_block_forms [of e]
  show "m = msg_key_rejected \<or> m = msg_quota \<or> m = msg_rate_limit \<or>
        (\<exists>cause. m = msg_processing @ cause)"
    by simp
next
  fix content others occ
  assume h: "\<not> not_configured (openaiApiKey rt a) \<and>
        chat_completions_create rt = Inr (Some content # others) \<and> content \<noteq> [] \<and>
        JSON_parse rt content = None \<and>
        keywordOccurrences (RegExp_match_count rt) content (targetKeyword a) = Inr occ"
  then have tb: "try_block rt a = plain_text_result rt a (realCaseStudies rt a) content"
    by (simp add: try_block_def Let_def)
  from h obtain r where r: "plain_text_result rt a (realCaseStudies rt a) content = Inr r"
    by (simp add: plain_text_result_def Let_def)
  from plain_text_result_fields [OF r] have "rewrittenContent r = Some (JStr content)" by blast
  with tb r show "\<exists>r. rewriteContentWithSEO rt a = Inr r \<and>
             plain_text_result rt a (realCaseStudies rt a) content = Inr r \<and>
             rewrittenContent r = Some (JStr content)"
    by (simp add: rewriteContentWithSEO_def)
next
  fix reply others
  assume h: "\<not> not_configured (openaiApiKey rt a) \<and>
        chat_completions_create rt = Inr (reply # others) \<and> (reply = None \<or> reply = Some [])"
  then have "try_block rt a = Inl (Error msg_empty_reply)"
    by (auto simp: try_block_def Let_def)
  then show "rewriteContentWithSEO rt a = Inl (msg_processing @ msg_empty_reply)"
    by (simp add: rewriteContentWithSEO_def catch_block_empty_reply)
qed

text \<open>
  The three parts at concrete inputs: a reply of plain text is returned as the rewritten
  text, a \<^verbatim>\<open>null\<close> reply fails with the empty-reply message, and an error of the
  endpoint arrives behind the processing prefix.
\<close>

theorem rewrite_outcome_witness:
  "(\<exists>r. rewriteContentWithSEO (answering ''Texto sem formato'' None) (call_with ''teste'') = Inr r \<and>
        rewrittenContent r = Some (JStr ''Texto sem formato'')) \<and>
   rewriteContentWithSEO
        ((answering ''Texto sem formato'' None)\<lparr>chat_completions_create := Inr [None]\<rparr>)
        (call_with ''teste'') = Inl (msg_processing @ msg_empty_reply) \<and>
   (\<exists>cause. rewriteContentWithSEO
        ((answering ''Texto sem formato'' None)
           \<lparr>chat_completions_create := Inl (Error ''socket hang up'')\<rparr>)
        (call_with ''teste'') = Inl (msg_processing @ cause))"
proof -
  let ?rt = "answering ''Texto sem formato'' None"
  let ?a = "call_with ''teste''"
  have key: "\<not> not_configured (openaiApiKey ?rt ?a)" by code_simp
  have chat: "chat_completions_create ?rt = Inr (Some ''Texto sem formato'' # [])" by code_simp
  have parse: "JSON_parse ?rt ''Texto sem formato'' = None" by code_simp
  have occ: "keywordOccurrences (RegExp_match_count ?rt) ''Texto sem formato'' (targetKeyword ?a)
               = Inr 0"
    by code_simp
  from rewrite_outcome [of ?rt ?a] key chat parse occ
  have one: "\<exists>r. rewriteContentWithSEO ?rt ?a = Inr r \<and>
        rewrittenContent r = Some (JStr ''Texto sem formato'')"
    by fastforce
  let ?rt2 = "?rt\<lparr>chat_completions_create := Inr [None]\<rparr>"
  have key2: "\<not> not_configured (openaiApiKey ?rt2 ?a)" by code_simp
  have chat2: "chat_completions_create ?rt2 = Inr (None # [])" by code_simp
  from rewrite_outcome [of ?rt2 ?a] key2 chat2
  have two: "rewriteContentWithSEO ?rt2 ?a = Inl (msg_processing @ msg_empty_reply)"
    by blast
  let ?rt3 = "?rt\<lparr>chat_completions_create := Inl (Error ''socket hang up'')\<rparr>"
  have out3: "rewriteContentWithSEO ?rt3 ?a = Inl (msg_processing @ ''socket hang up'')"
    by code_simp
  have "msg_processing @ ''socket hang up'' \<noteq> msg_key_rejected"
       "msg_processing @ ''socket hang up'' \<noteq> msg_quota"
       "msg_processing @ ''socket hang up'' \<noteq> msg_rate_limit" by code_simp+
  with rewrite_outcome [of ?rt3 ?a] out3
  have three: "\<exists>cause. rewriteContentWithSEO ?rt3 ?a = Inl (msg_processing @ cause)"
    by auto
  from one two three show ?thesis by blast
qed

text \<open>
  Claim C1 as stated fails on the empty reply: with a usable key and the keyword
  \<open>teste\<close>, an endpoint that answers with the empty string makes the call fail.
\<close>

theorem rewrite_empty_reply_counterexample:
  "rewriteContentWithSEO (answering '''' None) (call_with ''teste'')
     = Inl (msg_processing @ msg_empty_reply)"
  by code_simp

text \<open>
  Claim C4, as amended. Without a usable credential (the explicit key, or else the one of
  the environment, is missing, empty or the placeholder) the call fails whatever the
  endpoint would answer, and no result is substituted; the caller receives the
  configuration message behind the processing prefix, since the outer
  \<^verbatim>\<open>catch\<close> wraps it like any other error.
\<close>

theorem not_configured_wrapped:
  "not_configured (openaiApiKey rt a) \<Longrightarrow>
     rewriteContentWithSEO rt a = Inl (msg_processing @ msg_not_configured)"
  by (simp add: rewriteContentWithSEO_def try_block_def Let_def catch_block_not_configured)

text \<open>The placeholder as explicit key, with a real key in the environment.\<close>

theorem not_configured_wrapped_witness:
  "not_configured
     (openaiApiKey ((answering ''Texto'' None)\<lparr>env_OPENAI_API_KEY := Some ''sk-env''\<rparr>)
       ((call_with ''teste'')\<lparr>apiKey := Some ''dummy-key''\<rparr>)) \<and>
   rewriteContentWithSEO ((answering ''Texto'' None)\<lparr>env_OPENAI_API_KEY := Some ''sk-env''\<rparr>)
       ((call_with ''teste'')\<lparr>apiKey := Some ''dummy-key''\<rparr>)
     = Inl (msg_processing @ msg_not_configured)"
proof -
  have h: "not_configured
     (openaiApiKey ((answering ''Texto'' None)\<lparr>env_OPENAI_API_KEY := Some ''sk-env''\<rparr>)
       ((call_with ''teste'')\<lparr>apiKey := Some ''dummy-key''\<rparr>))"
    by code_simp
  from not_configured_wrapped [OF h] h show ?thesis by simp
qed

text \<open>
  Claim C4 as stated fails: with no key at all, the message the caller receives is not the
  configuration message itself.
\<close>

theorem not_configured_verbatim_counterexample:
  "rewriteContentWithSEO (answering ''Texto'' None) ((call_with ''teste'')\<lparr>apiKey := None\<rparr>)
     = Inl (msg_processing @ msg_not_configured) \<and>
   msg_processing @ msg_not_configured \<noteq> msg_not_configured"
  by code_simp

subsection \<open>Word count, density and score\<close>

text \<open>
  The three metrics never look at the values the reply reports for them: a property
  \<open>wordCount\<close>, \<open>keywordDensity\<close> or \<open>seoScore\<close> of the reply changes nothing.
\<close>

lemma reported_metrics_ignored:
  assumes "k = ''wordCount'' \<or> k = ''keywordDensity'' \<or> k = ''seoScore''"
  shows "parsed_result rt a studies (JObj ((k, v) # kvs)) = parsed_result rt a studies (JObj kvs)"
proof -
  have reads:
    "get_prop (JObj ((k, v) # kvs)) ''rewrittenContent'' = get_prop (JObj kvs) ''rewrittenContent''"
    "get_prop (JObj ((k, v) # kvs)) ''metaDescription'' = get_prop (JObj kvs) ''metaDescription''"
    "get_prop (JObj ((k, v) # kvs)) ''helpfulnessScore'' = get_prop (JObj kvs) ''helpfulnessScore''"
    "get_prop (JObj ((k, v) # kvs)) ''qualityScore'' = get_prop (JObj kvs) ''qualityScore''"
    "get_prop (JObj ((k, v) # kvs)) ''eatScore'' = get_prop (JObj kvs) ''eatScore''"
    "get_prop (JObj ((k, v) # kvs)) ''structureScore'' = get_prop (JObj kvs) ''structureScore''"
    "get_prop (JObj ((k, v) # kvs)) ''aiOptimizationScore''
       = get_prop (JObj kvs) ''aiOptimizationScore''"
    "get_prop (JObj ((k, v) # kvs)) ''featuredImage'' = get_prop (JObj kvs) ''featuredImage''"
    "get_prop (JObj ((k, v) # kvs)) ''faq'' = get_prop (JObj kvs) ''faq''"
    "get_prop (JObj ((k, v) # kvs)) ''caseStudies'' = get_prop (JObj kvs) ''caseStudies''"
    "get_prop (JObj ((k, v) # kvs)) ''richContent'' = get_prop (JObj kvs) ''richContent''"
    "get_prop (JObj ((k, v) # kvs)) ''citations'' = get_prop (JObj kvs) ''citations''"
    "get_prop (JObj ((k, v) # kvs)) ''internalLinking'' = get_prop (JObj kvs) ''internalLinking''"
    "get_prop (JObj ((k, v) # kvs)) ''entities'' = get_prop (JObj kvs) ''entities''"
    "get_prop (JObj ((k, v) # kvs)) ''schemaMarkup'' = get_prop (JObj kvs) ''schemaMarkup''"
    "get_prop (JObj ((k, v) # kvs)) ''authorBio'' = get_prop (JObj kvs) ''authorBio''"
    "get_prop (JObj ((k, v) # kvs)) ''ctaSection'' = get_prop (JObj kvs) ''ctaSection''"
    using assms by auto
  show ?thesis
    unfolding parsed_result_def metaDescription_of_def reads by simp
qed

text \<open>
  How the word count of the code relates to the number of tokens: it is one more when
  the text is empty or begins with whitespace, and one more again when the text ends
  with whitespace.
\<close>

lemma split_ws_not_Nil: "split_ws s \<noteq> []"
  by (cases s) (simp_all split: list.splits)

lemma count_tokens_dropWhile:
  "count_tokens False (dropWhile is_space cs) = count_tokens False cs"
  by (induction cs) simp_all

lemma count_tokens_True:
  "count_tokens False cs
     = count_tokens True cs + (if cs \<noteq> [] \<and> \<not> is_space (hd cs) then 1 else 0)"
  by (cases cs) simp_all

lemma last_dropWhile_space:
  "dropWhile is_space cs \<noteq> [] \<Longrightarrow> last (dropWhile is_space cs) = last cs"
  by (induction cs) (auto split: if_splits)

lemma dropWhile_Nil_last_space:
  "dropWhile is_space cs = [] \<Longrightarrow> cs \<noteq> [] \<Longrightarrow> is_space (last cs)"
  by (induction cs) (auto split: if_splits)

lemma hd_dropWhile_space:
  "dropWhile is_space cs \<noteq> [] \<Longrightarrow> \<not> is_space (hd (dropWhile is_space cs))"
  using hd_dropWhile by blast

lemma wordCount_of_tokens:
  "wordCount_of s =
     spec_whitespace_token_count s
       + (if s = [] \<or> is_space (hd s) then 1 else 0)
       + (if s \<noteq> [] \<and> is_space (last s) then 1 else 0)"
proof -
  have "length (split_ws s) =
          count_tokens False s
            + (if s = [] \<or> is_space (hd s) then 1 else 0)
            + (if s \<noteq> [] \<and> is_space (last s) then 1 else 0)"
  proof (induction s rule: split_ws.induct)
    case 1
    show ?case by simp
  next
    case (2 c cs)
    show ?case
    proof (cases "is_space c")
      case True
      let ?d = "dropWhile is_space cs"
      from 2(1) [OF True] have ih:
        "length (split_ws ?d) =
           count_tokens False ?d
             + (if ?d = [] \<or> is_space (hd ?d) then 1 else 0)
             + (if ?d \<noteq> [] \<and> is_space (last ?d) then 1 else 0)" .
      show ?thesis
      proof (cases "?d = []")
        case dNil: True
        then have "is_space (last (c # cs))"
          using True dropWhile_Nil_last_space [of cs] by (cases cs) auto
        with True dNil ih count_tokens_dropWhile [of cs] show ?thesis by simp
      next
        case dCons: False
        then have "cs \<noteq> []" by auto
        then have "last (c # cs) = last ?d" using last_dropWhile_space [OF dCons] by simp
        with True dCons ih count_tokens_dropWhile [of cs] hd_dropWhile_space [OF dCons]
        show ?thesis by simp
      qed
    next
      case False
      from 2(2) [OF False] have ih:
        "length (split_ws cs) =
           count_tokens False cs
             + (if cs = [] \<or> is_space (hd cs) then 1 else 0)
             + (if cs \<noteq> [] \<and> is_space (last cs) then 1 else 0)" .
      obtain w ws where sp: "split_ws cs = w # ws"
        using split_ws_not_Nil [of cs] by (cases "split_ws cs") auto
      with False have "length (split_ws (c # cs)) = length (split_ws cs)" by simp
      with False ih count_tokens_True [of cs] show ?thesis
        by (cases cs) (auto split: if_splits)
    qed
  qed
  then show ?thesis
    by (simp add: wordCount_of_def spec_whitespace_token_count_def)
qed

text \<open>
  Claim C2, at an input where the code departs from it. The reply is
  \<^verbatim>\<open>{"rewrittenContent":"","wordCount":0,"keywordDensity":"0%","seoScore":1}\<close> and the
  keyword is \<open>teste\<close>. The three fields are recomputed, not copied, but the word count
  of the empty rewritten text comes out as 1, where the text has no whitespace-separated
  token: \<^verbatim>\<open>"".split(/\s+/)\<close> is the one-element array of the empty string.
\<close>

theorem wordCount_empty_text:
  \<open>map_sum id (\<lambda>r. (wordCount r, keywordDensity r, seoScore r))
     (rewriteContentWithSEO
        (answering ''{"rewrittenContent":"","wordCount":0,"keywordDensity":"0%","seoScore":1}''
           (Some (JObj [(''rewrittenContent'', JStr ''''), (''wordCount'', JNum 0),
                        (''keywordDensity'', JStr ''0%''), (''seoScore'', JNum 1)])))
        (call_with ''teste''))
     = Inr (1, ''0.0%'', 10) \<and>
   spec_whitespace_token_count '''' = 0\<close>
  by code_simp

lemma digit_char_is_digit: "d < 10 \<Longrightarrow> is_digit (digit_char d)"
proof -
  have "list_all (\<lambda>d. is_digit (digit_char d)) [0..<10]" by code_simp
  then show "d < 10 \<Longrightarrow> is_digit (digit_char d)" by (simp add: list_all_iff)
qed

lemma show_nat_digits: "show_nat n \<noteq> [] \<and> list_all is_digit (show_nat n)"
proof (induction n rule: show_nat.induct)
  case (1 n)
  show ?case
  proof (cases "n < 10")
    case True
    then show ?thesis by (simp add: show_nat.simps [of n] digit_char_is_digit)
  next
    case False
    with 1 show ?thesis by (simp add: show_nat.simps [of n] digit_char_is_digit)
  qed
qed

text \<open>
  Whenever the word count is positive, which it always is, the density is a run of
  digits, a point, one digit and the percent sign.
\<close>

lemma keywordDensity_shape:
  assumes "0 < wc" and "0 \<le> occ"
  shows "\<exists>ds d. keywordDensity_of occ wc = ds @ ''.'' @ [d] @ ''%'' \<and>
                ds \<noteq> [] \<and> list_all is_digit ds \<and> is_digit d"
proof -
  from assms have "\<not> (of_int occ / of_int wc * 100 :: rat) < 0" by (simp add: not_less)
  then show ?thesis
    using assms show_nat_digits
    by (simp add: keywordDensity_of_def toFixed1_def Let_def digit_char_is_digit)
qed

lemma wordCount_of_positive: "0 < wordCount_of s"
  by (cases s) (simp_all add: wordCount_of_def split: list.splits)

text \<open>
  Claim C7, at an input where the code departs from it. The reply is
  \<^verbatim>\<open>{"rewrittenContent":""}\<close> and the keyword is \<open>teste\<close>: the rewritten text is
  empty and the density is \<open>0.0%\<close>. The branch that answers \<open>0%\<close> is never taken, since
  the word count of the empty text is 1.
\<close>

theorem keywordDensity_empty_text:
  \<open>map_sum id keywordDensity
     (rewriteContentWithSEO
        (answering ''{"rewrittenContent":""}'' (Some (JObj [(''rewrittenContent'', JStr '''')])))
        (call_with ''teste''))
     = Inr ''0.0%''\<close>
  by code_simp

text \<open>
  Claim C8. On either path, the \<open>seoScore\<close> of a returned result is an integer from 1 to
  100.
\<close>

theorem seoScore_in_range:
  assumes "rewriteContentWithSEO rt a = Inr r"
  shows "1 \<le> seoScore r \<and> seoScore r \<le> 100"
proof -
  from assms have tb: "try_block rt a = Inr r" by (simp add: rewrite_Inr)
  then obtain content others where
    path: "case JSON_parse rt content of
               None \<Rightarrow> plain_text_result rt a (realCaseStudies rt a) content = Inr r
             | Some result \<Rightarrow> parsed_result rt a (realCaseStudies rt a) result = Inr r"
    using try_block_Inr by blast
  show ?thesis
  proof (cases "JSON_parse rt content")
    case None
    with path plain_text_result_fields obtain occ where
      "seoScore r = seoScore_of occ (wordCount_of content)" by fastforce
    then show ?thesis by (simp add: seoScore_of_range)
  next
    case (Some result)
    with path have "parsed_result rt a (realCaseStudies rt a) result = Inr r" by simp
    from parsed_result_fields [OF this] obtain rewritten occ where
      "seoScore r = seoScore_of occ (wordCount_of rewritten)" by blast
    then show ?thesis by (simp add: seoScore_of_range)
  qed
qed

text \<open>
  The scenario of the specification: three words, three occurrences, a score of 40.
\<close>

theorem seoScore_in_range_witness:
  \<open>\<exists>r. rewriteContentWithSEO
          (answering ''{"rewrittenContent":"Teste teste teste.","metaDescription":"desc"}''
             (Some (JObj [(''rewrittenContent'', JStr ''Teste teste teste.''),
                          (''metaDescription'', JStr ''desc'')])))
          (call_with ''teste'') = Inr r \<and>
        seoScore r = 40 \<and> 1 \<le> seoScore r \<and> seoScore r \<le> 100\<close>
proof -
  let ?out = \<open>rewriteContentWithSEO
          (answering ''{"rewrittenContent":"Teste teste teste.","metaDescription":"desc"}''
             (Some (JObj [(''rewrittenContent'', JStr ''Teste teste teste.''),
                          (''metaDescription'', JStr ''desc'')])))
          (call_with ''teste'')\<close>
  have score: "map_sum id seoScore ?out = Inr 40" by code_simp
  then obtain r where r: "?out = Inr r" by (cases ?out) simp_all
  from seoScore_in_range [OF r] score r show ?thesis by simp
qed

subsection \<open>The meta description\<close>

text \<open>The value taken from the reply is cut to 155 code units; the default is not.\<close>

lemma metaDescription_of_length:
  assumes "metaDescription_of result kw = Inr d"
  shows "length d \<le> 155 \<or> d = default_metaDescription kw"
  using assms
  by (auto simp: metaDescription_of_def split: option.splits json.splits if_splits)

text \<open>
  Claim C5, at an input where the code departs from it. The keyword has 128 characters and
  the reply is not JSON: the meta description is the default built from the keyword, 156
  characters long.
\<close>

theorem metaDescription_default_too_long:
  "map_sum id (\<lambda>r. length (metaDescription r))
     (rewriteContentWithSEO (answering ''Texto sem formato'' None)
        (call_with (replicate 128 CHR ''a'')))
     = Inr 156"
  by code_simp

subsection \<open>The optional sections and the defaults of the parse-failure path\<close>

lemma default_authorBio_present: "default_authorBio author \<noteq> None \<longleftrightarrow> given author"
  by (simp add: default_authorBio_def given_def split: option.splits)

lemma default_ctaSection_present: "default_ctaSection company kw \<noteq> None \<longleftrightarrow> given company"
  by (simp add: default_ctaSection_def given_def split: option.splits)

lemma or_maybe_present: "or_maybe v d \<noteq> None \<longleftrightarrow> or_maybe v None \<noteq> None \<or> d \<noteq> None"
  by (simp add: or_maybe_def split: option.splits)

text \<open>
  Claim C6, as amended. In a returned result, \<open>authorBio\<close> is present exactly when an
  author name that is not empty was supplied or the parsed reply carries a truthy
  \<open>authorBio\<close> of its own, which is then passed on. So on the parse-failure path it is
  present if and only if the name was supplied, and on the parse-success path a supplied
  name always makes it present. The same holds of \<open>ctaSection\<close> and the company name.
\<close>

theorem optional_sections_presence:
  assumes "rewriteContentWithSEO rt a = Inr r"
      and "chat_completions_create rt = Inr (Some content # others)"
  shows "case JSON_parse rt content of
           None \<Rightarrow>
             (authorBio r \<noteq> None \<longleftrightarrow> given (authorName a)) \<and>
             (ctaSection r \<noteq> None \<longleftrightarrow> given (companyName a))
         | Some result \<Rightarrow>
             (authorBio r \<noteq> None \<longleftrightarrow>
                given (authorName a) \<or> or_maybe (get_prop result ''authorBio'') None \<noteq> None) \<and>
             (ctaSection r \<noteq> None \<longleftrightarrow>
                given (companyName a) \<or> or_maybe (get_prop result ''ctaSection'') None \<noteq> None)"
proof -
  from assms(1) have "try_block rt a = Inr r" by (simp add: rewrite_Inr)
  from try_block_Inr [OF this] assms(2)
  have path: "case JSON_parse rt content of
               None \<Rightarrow> plain_text_result rt a (realCaseStudies rt a) content = Inr r
             | Some result \<Rightarrow> parsed_result rt a (realCaseStudies rt a) result = Inr r"
    by auto
  show ?thesis
  proof (cases "JSON_parse rt content")
    case None
    with path have "plain_text_result rt a (realCaseStudies rt a) content = Inr r" by simp
    from plain_text_result_fields [OF this]
    have "authorBio r = default_authorBio (authorName a)"
         "ctaSection r = default_ctaSection (companyName a) (targetKeyword a)" by blast+
    with None show ?thesis
      by (simp add: default_authorBio_present default_ctaSection_present del: not_None_eq)
  next
    case (Some result)
    with path have "parsed_result rt a (realCaseStudies rt a) result = Inr r" by simp
    from parsed_result_fields [OF this]
    have "authorBio r = or_maybe (get_prop result ''authorBio'') (default_authorBio (authorName a))"
         "ctaSection r = or_maybe (get_prop result ''ctaSection'')
                            (default_ctaSection (companyName a) (targetKeyword a))" by blast+
    with Some show ?thesis
      using or_maybe_present [of "get_prop result ''authorBio''" "default_authorBio (authorName a)"]
            or_maybe_present [of "get_prop result ''ctaSection''"
                                 "default_ctaSection (companyName a) (targetKeyword a)"]
      by (simp add: default_authorBio_present default_ctaSection_present del: not_None_eq) blast
  qed
qed

text \<open>
  An author name and no company name, with a reply that carries neither section: the
  biography is present and the call to action is not.
\<close>

theorem optional_sections_presence_witness:
  \<open>\<exists>r. rewriteContentWithSEO
          (answering ''{"rewrittenContent":"Texto"}''
             (Some (JObj [(''rewrittenContent'', JStr ''Texto'')])))
          ((call_with ''teste'')\<lparr>authorName := Some ''Ana''\<rparr>) = Inr r \<and>
        authorBio r \<noteq> None \<and> ctaSection r = None\<close>
proof -
  let ?rt = \<open>answering ''{"rewrittenContent":"Texto"}''
               (Some (JObj [(''rewrittenContent'', JStr ''Texto'')]))\<close>
  let ?a = "(call_with ''teste'')\<lparr>authorName := Some ''Ana''\<rparr>"
  have "\<not> isl (rewriteContentWithSEO ?rt ?a)" by code_simp
  then obtain r where r: "rewriteContentWithSEO ?rt ?a = Inr r"
    by (cases "rewriteContentWithSEO ?rt ?a") simp_all
  have chat: \<open>chat_completions_create ?rt = Inr (Some ''{"rewrittenContent":"Texto"}'' # [])\<close>
    by code_simp
  have parse: \<open>JSON_parse ?rt ''{"rewrittenContent":"Texto"}''
                 = Some (JObj [(''rewrittenContent'', JStr ''Texto'')])\<close>
    by code_simp
  have author: "given (authorName ?a)" and company: "\<not> given (companyName ?a)"
    by code_simp+
  have reply:
    "or_maybe (get_prop (JObj [(''rewrittenContent'', JStr ''Texto'')]) ''authorBio'') None = None"
    "or_maybe (get_prop (JObj [(''rewrittenContent'', JStr ''Texto'')]) ''ctaSection'') None = None"
    by code_simp+
  from optional_sections_presence [OF r chat] parse author company reply
  have "authorBio r \<noteq> None \<and> ctaSection r = None" by simp
  with r show ?thesis by blast
qed

text \<open>
  Claim C6 as stated fails: no author name is supplied, the reply carries an
  \<open>authorBio\<close>, and the result has it.
\<close>

theorem authorBio_without_author_counterexample:
  \<open>authorName (call_with ''teste'') = None \<and>
   map_sum id authorBio
     (rewriteContentWithSEO
        (answering ''{"rewrittenContent":"Texto","authorBio":"Bio inventada"}''
           (Some (JObj [(''rewrittenContent'', JStr ''Texto''),
                        (''authorBio'', JStr ''Bio inventada'')])))
        (call_with ''teste''))
     = Inr (Some (JStr ''Bio inventada''))\<close>
  by code_simp

text \<open>
  Claim C9. When the reply is not valid JSON, the returned result has empty lists for
  \<open>citations\<close>, \<open>internalLinking\<close> and the three lists of \<open>richContent\<close>, and its
  \<open>schemaMarkup\<close> has \<open>articleSchema\<close> true and the four other flags false.
\<close>

theorem parse_failure_defaults:
  assumes "rewriteContentWithSEO rt a = Inr r"
      and "chat_completions_create rt = Inr (Some content # others)"
      and "JSON_parse rt content = None"
  shows "citations r = JArr [] \<and> internalLinking r = JArr [] \<and>
         richContent r = JObj [(''suggestedGraphics'', JArr []), (''suggestedImages'', JArr []),
                               (''visualElements'', JArr [])] \<and>
         schemaMarkup r = JObj [(''articleSchema'', JBool True), (''authorSchema'', JBool False),
                                (''faqSchema'', JBool False), (''organizationSchema'', JBool False),
                                (''reviewSchema'', JBool False)]"
proof -
  from assms(1) have "try_block rt a = Inr r" by (simp add: rewrite_Inr)
  from try_block_Inr [OF this] assms(2,3)
  have "plain_text_result rt a (realCaseStudies rt a) content = Inr r" by auto
  from plain_text_result_fields [OF this] show ?thesis
    by (auto simp: default_richContent_def default_schemaMarkup_def)
qed

theorem parse_failure_defaults_witness:
  "\<exists>r. rewriteContentWithSEO (answering ''Texto sem formato'' None) (call_with ''teste'') = Inr r \<and>
        citations r = JArr [] \<and> internalLinking r = JArr [] \<and>
        richContent r = JObj [(''suggestedGraphics'', JArr []), (''suggestedImages'', JArr []),
                              (''visualElements'', JArr [])] \<and>
        schemaMarkup r = JObj [(''articleSchema'', JBool True), (''authorSchema'', JBool False),
                               (''faqSchema'', JBool False), (''organizationSchema'', JBool False),
                               (''reviewSchema'', JBool False)]"
proof -
  let ?rt = "answering ''Texto sem formato'' None"
  let ?a = "call_with ''teste''"
  have "\<not> isl (rewriteContentWithSEO ?rt ?a)" by code_simp
  then obtain r where r: "rewriteContentWithSEO ?rt ?a = Inr r"
    by (cases "rewriteContentWithSEO ?rt ?a") simp_all
  have chat: "chat_completions_create ?rt = Inr (Some ''Texto sem formato'' # [])" by code_simp
  have parse: "JSON_parse ?rt ''Texto sem formato'' = None" by code_simp
  from parse_failure_defaults [OF r chat parse] r show ?thesis by blast
qed

end
